theory Spec2Isabelle
  imports Main
begin

section \<open>The entry point of the desktop shell (src/main.cc)\<close>

text \<open>
  The repository's only source file under study is \<^verbatim>\<open>main.cc\<close>: the argument loop that
  chooses between command-forwarding mode and GUI mode, the stdout callback of command mode,
  the two routing callbacks of GUI mode (\<^verbatim>\<open>onStdOut\<close>, backend to window, and
  \<^verbatim>\<open>onMessage\<close>, window to backend) and the shutdown handler.

  The classes \<^verbatim>\<open>Parse\<close>, \<^verbatim>\<open>Window\<close>, \<^verbatim>\<open>Process\<close>, \<^verbatim>\<open>App\<close> and the string helpers
  (\<^verbatim>\<open>decodeURIComponent\<close>, \<^verbatim>\<open>encodeURIComponent\<close>, \<^verbatim>\<open>resolveToMainProcess\<close>, ...) are
  declared in headers that are not part of the sources. The model takes the pure helpers as
  parameters (record \<open>env\<close>) and records every call into a window, the process or the
  application as an event of a trace, in program order. The message callback of a window
  is the one member that \<^verbatim>\<open>main.cc\<close> itself fills in, with its own \<^verbatim>\<open>onMessage\<close> lambda: a call
  of it is recorded and then run.
\<close>

subsection \<open>Library functions of C++: \<^verbatim>\<open>std::stoi\<close> and \<^verbatim>\<open>std::to_string\<close>\<close>

datatype error = InvalidArgument | OutOfRange | BadFunctionCall

text \<open>The characters that \<^verbatim>\<open>isspace\<close> accepts in the C locale; \<^verbatim>\<open>strtol\<close> skips them.\<close>

definition isspace :: "char \<Rightarrow> bool" where
  "isspace ch = (ch \<in> set [CHR 0x20, CHR 0x09, CHR 0x0A, CHR 0x0B, CHR 0x0C, CHR 0x0D])"

definition digit_val :: "char \<Rightarrow> nat option" where
  "digit_val = map_of
     [(CHR ''0'', 0), (CHR ''1'', 1), (CHR ''2'', 2), (CHR ''3'', 3), (CHR ''4'', 4),
      (CHR ''5'', 5), (CHR ''6'', 6), (CHR ''7'', 7), (CHR ''8'', 8), (CHR ''9'', 9)]"

fun digits_value :: "nat \<Rightarrow> string \<Rightarrow> nat" where
  "digits_value acc [] = acc"
| "digits_value acc (ch # cs) =
     (case digit_val ch of None \<Rightarrow> acc | Some d \<Rightarrow> digits_value (10 * acc + d) cs)"

definition INT_MIN :: int where "INT_MIN = - (2 ^ 31)"
definition INT_MAX :: int where "INT_MAX = 2 ^ 31 - 1"

text \<open>
  \<^verbatim>\<open>std::stoi(s)\<close> in base 10: leading white space is skipped, one sign is optional, the
  longest run of decimal digits is converted and whatever follows is ignored. No digit at
  all raises \<^verbatim>\<open>std::invalid_argument\<close>; a value outside the range of \<^verbatim>\<open>int\<close> raises
  \<^verbatim>\<open>std::out_of_range\<close>.
\<close>

definition stoi :: "string \<Rightarrow> error + int" where
  "stoi s =
     (let s1 = dropWhile isspace s;
          neg = (case s1 of [] \<Rightarrow> False | ch # _ \<Rightarrow> ch = CHR ''-'');
          s2 = (case s1 of [] \<Rightarrow> []
                | ch # cs \<Rightarrow> if ch = CHR ''-'' \<or> ch = CHR ''+'' then cs else s1)
      in case s2 of
           [] \<Rightarrow> Inl InvalidArgument
         | ch # _ \<Rightarrow>
             if digit_val ch = None then Inl InvalidArgument
             else let n = int (digits_value 0 s2);
                      v = (if neg then - n else n)
                  in if v < INT_MIN \<or> INT_MAX < v then Inl OutOfRange else Inr v)"

definition digit_char :: "nat \<Rightarrow> char" where
  "digit_char d = ''0123456789'' ! d"

fun digits10 :: "nat \<Rightarrow> string" where
  "digits10 n = (if n < 10 then [digit_char n] else digits10 (n div 10) @ [digit_char (n mod 10)])"

declare digits10.simps [simp del]

text \<open>\<^verbatim>\<open>std::to_string\<close> of an \<^verbatim>\<open>int\<close>: the decimal digits, after a minus sign when negative.\<close>

definition to_string :: "int \<Rightarrow> string" where
  "to_string i = (if i < 0 then CHR ''-'' # digits10 (nat (- i)) else digits10 (nat i))"

subsection \<open>Data\<close>

text \<open>
  What \<^verbatim>\<open>main.cc\<close> reads of a parsed command: the public members \<^verbatim>\<open>name\<close> and
  \<^verbatim>\<open>index\<close> and the lookup \<^verbatim>\<open>get(key)\<close>.
\<close>

record Parse =
  name :: string
  index :: int
  get :: "string \<Rightarrow> string"

text \<open>The two windows \<^verbatim>\<open>w0\<close> and \<^verbatim>\<open>w1\<close> that \<^verbatim>\<open>MAIN\<close> constructs.\<close>

datatype window = w0 | w1

record ScreenSize =
  height :: int
  width :: int

text \<open>
  The helpers of the missing headers, as parameters: the constructor \<^verbatim>\<open>Parse cmd(out)\<close>,
  the percent coding, the three message formatters, \<^verbatim>\<open>replace\<close>, the screen metrics a
  window reports and the process id of the backend.
\<close>

record env =
  parse :: "string \<Rightarrow> Parse"
  decodeURIComponent :: "string \<Rightarrow> string"
  encodeURIComponent :: "string \<Rightarrow> string"
  resolveToMainProcess :: "string \<Rightarrow> string \<Rightarrow> string \<Rightarrow> string"
  resolveToRenderProcess :: "string \<Rightarrow> string \<Rightarrow> string \<Rightarrow> string"
  emitToRenderProcess :: "string \<Rightarrow> string \<Rightarrow> string"
  getScreenSize :: "window \<Rightarrow> ScreenSize"
  getPID :: nat
  replace :: "string \<Rightarrow> string \<Rightarrow> string \<Rightarrow> string"

text \<open>Every call that leaves \<^verbatim>\<open>main.cc\<close>, with its arguments.\<close>

datatype event =
    SetTitle window string string
  | AppRestart
  | Show window string
  | Hide window string
  | Navigate window string string
  | SetSize window string int int int
  | GetScreenSize window
  | OnMessage window string
  | SetSystemMenu window string string
  | OpenExternal window string
  | WindowExit window int
  | Eval window string
  | WriteToStdout string
  | ShowInspector window
  | OpenDialog window string bool bool bool bool string string string
  | SetContextMenu window string string
  | ProcessWrite string
  | ProcessKill nat
  | WindowKill window
  | AppKill
  | Cout string
  | ProgramExit int

text \<open>
  The global \<^verbatim>\<open>std::function<void(int)> shutdownHandler\<close> is empty until \<^verbatim>\<open>MAIN\<close> binds
  it, to one lambda in command mode (lines 167-171) and to another in GUI mode
  (lines 447-455).
\<close>

datatype handler = Unbound | CommandModeHandler | GuiModeHandler

text \<open>
  The mutable state the lambdas share: the local \<^verbatim>\<open>exitCode\<close> of \<^verbatim>\<open>MAIN\<close>, captured by
  reference, the global handler, and the trace of calls made so far.
\<close>

record state =
  exitCode :: int
  shutdownHandler :: handler
  trace :: "event list"

text \<open>
  A piece of code returns, throws, or ends the process through \<^verbatim>\<open>exit\<close>; in each case
  the state reached is kept.
\<close>

datatype outcome = Return state | Throw error state | Exited int state

fun bind_outcome :: "outcome \<Rightarrow> (state \<Rightarrow> outcome) \<Rightarrow> outcome" where
  "bind_outcome (Return st) f = f st"
| "bind_outcome (Throw e st) f = Throw e st"
| "bind_outcome (Exited n st) f = Exited n st"

text \<open>Statements in sequence: the next one runs only when the one before has returned.\<close>

fun run :: "(state \<Rightarrow> outcome) list \<Rightarrow> state \<Rightarrow> outcome" where
  "run [] st = Return st"
| "run (stmt # stmts) st = bind_outcome (stmt st) (run stmts)"

definition call :: "event \<Rightarrow> state \<Rightarrow> outcome" where
  "call ev st = Return (st\<lparr>trace := trace st @ [ev]\<rparr>)"

text \<open>\<^verbatim>\<open>exit(code)\<close> of the C library does not return.\<close>

definition exit_program :: "int \<Rightarrow> state \<Rightarrow> outcome" where
  "exit_program code st = Exited code (st\<lparr>trace := trace st @ [ProgramExit code]\<rparr>)"

definition final_state :: "outcome \<Rightarrow> state" where
  "final_state r = (case r of Return st \<Rightarrow> st | Throw e st \<Rightarrow> st | Exited n st \<Rightarrow> st)"

subsection \<open>Command mode: the stdout callback (lines 152-161)\<close>

definition commandModeStdOut :: "env \<Rightarrow> string \<Rightarrow> state \<Rightarrow> outcome" where
  "commandModeStdOut E out st =
     (let cmd = parse E out in
      if name cmd \<noteq> ''exit'' then
        call (Cout (decodeURIComponent E (get cmd ''value'') @ [CHR 0x0A])) st
      else
        (case stoi (get cmd ''value'') of
           Inl e \<Rightarrow> Throw e st
         | Inr n \<Rightarrow> exit_program n (st\<lparr>exitCode := n\<rparr>)))"

subsection \<open>GUI mode, window to backend: \<^verbatim>\<open>onMessage\<close> (lines 363-436)\<close>

definition onMessage :: "env \<Rightarrow> string \<Rightarrow> state \<Rightarrow> outcome" where
  "onMessage E out st =
     (let cmd = parse E out;
          w = (if index cmd = 0 then w0 else w1)
      in
      if name cmd = ''title'' then
        call (SetTitle w (get cmd ''seq'') (decodeURIComponent E (get cmd ''value''))) st
      else if name cmd = ''exit'' then
        (let st1 = (case stoi (decodeURIComponent E (get cmd ''value'')) of
                      Inl e \<Rightarrow> st
                    | Inr n \<Rightarrow> st\<lparr>exitCode := n\<rparr>)
         in call (WindowExit w (exitCode st1)) st1)
      else if name cmd = ''hide'' then call (Hide w '''') st
      else if name cmd = ''inspect'' then call (ShowInspector w) st
      else if name cmd = ''external'' then
        call (OpenExternal w (decodeURIComponent E (get cmd ''value''))) st
      else if name cmd = ''dialog'' then
        (let isSave = (get cmd ''type'' = ''save'');
             allowDirs = (get cmd ''allowDirs'' = ''true'');
             allowFiles = (get cmd ''allowFiles'' = ''true'');
             allowMultiple = (get cmd ''allowMultiple'' = ''true'');
             defaultName = decodeURIComponent E (get cmd ''defaultName'');
             defaultPath = decodeURIComponent E (get cmd ''defaultPath'');
             title = decodeURIComponent E (get cmd ''title'')
         in call (OpenDialog w (get cmd ''seq'') isSave allowDirs allowFiles allowMultiple
                    defaultPath title defaultName) st)
      else if name cmd = ''context'' then
        (let seq = get cmd ''seq'';
             val = decodeURIComponent E (get cmd ''value'')
         in call (SetContextMenu w seq val) st)
      else call (ProcessWrite out) st)"

subsection \<open>The \<^verbatim>\<open>onMessage\<close> slot of a window (lines 438-439)\<close>

text \<open>
  \<^verbatim>\<open>w0.onMessage = onMessage; w1.onMessage = onMessage;\<close> binds the message callback of
  both windows to the lambda above, before the event loop starts and so before any
  dispatched closure runs. A call \<^verbatim>\<open>w.onMessage(msg)\<close> made by the backend-to-window table
  is recorded as an event, and then the lambda runs on \<open>msg\<close>.
\<close>

definition window_onMessage :: "env \<Rightarrow> window \<Rightarrow> string \<Rightarrow> state \<Rightarrow> outcome" where
  "window_onMessage E w msg = run [call (OnMessage w msg), onMessage E msg]"

subsection \<open>GUI mode, backend to window: the closure of \<^verbatim>\<open>onStdOut\<close> (lines 245-341)\<close>

text \<open>
  \<^verbatim>\<open>onStdOut\<close> hands one closure per line of the backend's standard output to
  \<^verbatim>\<open>app.dispatch\<close>; the definition is the body of that closure. The reference \<^verbatim>\<open>w\<close> is
  \<^verbatim>\<open>cmd.index == 0 ? w0 : w1\<close>. The two \<^verbatim>\<open>std::stoi\<close> calls of \<^verbatim>\<open>size\<close> stand outside
  any \<^verbatim>\<open>try\<close>; the one of \<^verbatim>\<open>exit\<close> stands inside \<^verbatim>\<open>try { ... } catch (...) { }\<close>.
\<close>

definition onStdOut :: "env \<Rightarrow> string \<Rightarrow> state \<Rightarrow> outcome" where
  \<open>onStdOut E out st =
     (let cmd = parse E out;
          w = (if index cmd = 0 then w0 else w1);
          seq = get cmd ''seq'';
          val = get cmd ''value''
      in
      if name cmd = ''title'' then call (SetTitle w seq (decodeURIComponent E val)) st
      else if name cmd = ''restart'' then call AppRestart st
      else if name cmd = ''show'' then call (Show w seq) st
      else if name cmd = ''hide'' then call (Hide w seq) st
      else if name cmd = ''navigate'' then call (Navigate w seq (decodeURIComponent E val)) st
      else if name cmd = ''size'' then
        (case stoi (get cmd ''width'') of
           Inl e \<Rightarrow> Throw e st
         | Inr wd \<Rightarrow>
             (case stoi (get cmd ''height'') of
                Inl e \<Rightarrow> Throw e st
              | Inr ht \<Rightarrow> call (SetSize w seq wd ht 0) st))
      else if name cmd = ''getScreenSize'' then
        (let sz = getScreenSize E w;
             val' = ''{'' @ ''"width":'' @ to_string (width sz) @ '','' @
                    ''"height":'' @ to_string (height sz) @ '''' @ ''}''
         in run [call (GetScreenSize w),
                 window_onMessage E w
                   (resolveToMainProcess E seq ''0'' (encodeURIComponent E val'))]
              st)
      else if name cmd = ''menu'' then call (SetSystemMenu w seq (decodeURIComponent E val)) st
      else if name cmd = ''external'' then
        run [call (OpenExternal w (decodeURIComponent E val)),
             (\<lambda>s. if length seq > 0
                  then window_onMessage E w (resolveToMainProcess E seq ''0'' ''null'') s
                  else Return s)]
          st
      else if name cmd = ''exit'' then
        (let st1 = (case stoi val of Inl e \<Rightarrow> st | Inr n \<Rightarrow> st\<lparr>exitCode := n\<rparr>)
         in run [call (WindowExit w (exitCode st1)),
                 (\<lambda>s. if length seq > 0
                      then window_onMessage E w (resolveToMainProcess E seq ''0'' ''null'') s
                      else Return s)]
              st1)
      else if name cmd = ''resolve'' then
        call (Eval w (resolveToRenderProcess E seq (get cmd ''state'') val)) st
      else if name cmd = ''send'' then
        call (Eval w (emitToRenderProcess E (decodeURIComponent E (get cmd ''event'')) val)) st
      else if name cmd = ''stdout'' then call (WriteToStdout (decodeURIComponent E val)) st
      else Return st)\<close>

subsection \<open>Shutdown (lines 25-26, 167-171 and 447-455)\<close>

text \<open>The statements of the GUI-mode lambda, in the order of the source.\<close>

definition guiShutdownBody :: "env \<Rightarrow> int \<Rightarrow> (state \<Rightarrow> outcome) list" where
  "guiShutdownBody E code =
     [call (ProcessKill (getPID E)),
      call (WindowKill w0),
      call (WindowKill w1),
      call AppKill,
      exit_program code]"

definition guiShutdownHandler :: "env \<Rightarrow> int \<Rightarrow> state \<Rightarrow> outcome" where
  "guiShutdownHandler E code = run (guiShutdownBody E code)"

definition commandShutdownHandler :: "env \<Rightarrow> int \<Rightarrow> state \<Rightarrow> outcome" where
  "commandShutdownHandler E signum =
     run [call (ProcessKill (getPID E)), exit_program signum]"

text \<open>Calling the global: an empty \<^verbatim>\<open>std::function\<close> throws \<^verbatim>\<open>std::bad_function_call\<close>.\<close>

definition invokeShutdownHandler :: "env \<Rightarrow> int \<Rightarrow> state \<Rightarrow> outcome" where
  "invokeShutdownHandler E code st =
     (case shutdownHandler st of
        Unbound \<Rightarrow> Throw BadFunctionCall st
      | CommandModeHandler \<Rightarrow> commandShutdownHandler E code st
      | GuiModeHandler \<Rightarrow> guiShutdownHandler E code st)"

definition signalHandler :: "env \<Rightarrow> int \<Rightarrow> state \<Rightarrow> outcome" where
  "signalHandler E signal st = invokeShutdownHandler E signal st"

text \<open>The numbers of the two signals that \<^verbatim>\<open>MAIN\<close> installs the handler for (POSIX).\<close>

definition SIGHUP :: int where "SIGHUP = 1"
definition SIGINT :: int where "SIGINT = 2"

text \<open>
  A signal handler runs on top of whatever the program was doing. When the signal arrives
  while the GUI-mode lambda stands between its statement \<open>k\<close> and the next one, the first
  \<open>k\<close> statements have run, then \<^verbatim>\<open>signalHandler\<close> runs, and the rest of the interrupted
  lambda follows only if the handler returns.
\<close>

definition signalDuringShutdown :: "env \<Rightarrow> nat \<Rightarrow> int \<Rightarrow> int \<Rightarrow> state \<Rightarrow> outcome" where
  "signalDuringShutdown E k code signal =
     run (take k (guiShutdownBody E code) @ [signalHandler E signal] @
          drop k (guiShutdownBody E code))"

subsection \<open>The argument loop of \<^verbatim>\<open>MAIN\<close> (lines 50-110) and the choice of mode (line 146)\<close>

record args =
  suffix :: string
  argvArray :: string
  argvForward :: string
  isCommandMode :: bool
  isTest :: bool
  c :: int
  wantsVersion :: bool
  wantsHelp :: bool

definition initial_args :: args where
  "initial_args =
     \<lparr>suffix = '''', argvArray = '''', argvForward = '''', isCommandMode = False,
      isTest = False, c = 0, wantsVersion = False, wantsHelp = False\<rparr>"

text \<open>\<^verbatim>\<open>s.find(p) == 0\<close>: the first occurrence of \<open>p\<close> in \<open>s\<close> is at position 0.\<close>

definition find_at_0 :: "string \<Rightarrow> string \<Rightarrow> bool" where
  "find_at_0 s p = (take (length p) s = p)"

definition helpRequested :: "string \<Rightarrow> bool" where
  "helpRequested arg =
     (find_at_0 arg ''--help'' \<or> find_at_0 arg ''-help'' \<or> find_at_0 arg ''-h'')"

definition versionRequested :: "string \<Rightarrow> bool" where
  "versionRequested arg =
     (find_at_0 arg ''--version'' \<or> find_at_0 arg ''-version'' \<or>
      find_at_0 arg ''-v'' \<or> find_at_0 arg ''-V'')"

text \<open>One iteration; \<open>argc\<close> is the length of the argument vector.\<close>

definition arg_step :: "env \<Rightarrow> int \<Rightarrow> args \<Rightarrow> string \<Rightarrow> args" where
  "arg_step E argc a arg =
     (let a1 = a\<lparr>argvArray := argvArray a @ [CHR 0x27] @ replace E arg [CHR 0x27] [CHR 0x27] @
                    (if c a < argc then [CHR 0x27] @ '', '' else [CHR 0x27]),
                 c := c a + 1\<rparr>;
          a2 = (if helpRequested arg then a1\<lparr>wantsHelp := True\<rparr> else a1);
          a3 = (if versionRequested arg then a2\<lparr>wantsVersion := True\<rparr> else a2);
          a4 = (if find_at_0 arg ''--test'' then a3\<lparr>suffix := ''-test'', isTest := True\<rparr>
                else if c a3 \<ge> 2 \<and> \<not> find_at_0 arg ''-'' then a3\<lparr>isCommandMode := True\<rparr>
                else a3);
          a5 = (if helpRequested arg \<or> versionRequested arg
                then a4\<lparr>isCommandMode := True\<rparr> else a4)
      in if helpRequested arg then
           a5\<lparr>argvForward := argvForward a5 @ '' '' @ ''help --warn-arg-usage='' @ arg\<rparr>
         else if versionRequested arg then
           a5\<lparr>argvForward := argvForward a5 @ '' '' @ ''version --warn-arg-usage='' @ arg\<rparr>
         else if c a5 > 1 \<or> isCommandMode a5 then
           a5\<lparr>argvForward := argvForward a5 @ '' '' @ arg\<rparr>
         else a5)"

definition arg_loop :: "env \<Rightarrow> string list \<Rightarrow> args" where
  "arg_loop E argv = foldl (arg_step E (int (length argv))) initial_args argv"

datatype mode = CommandMode | GuiMode

text \<open>
  Line 146: with \<^verbatim>\<open>isCommandMode\<close> set, \<^verbatim>\<open>MAIN\<close> starts the backend with the command-mode
  callback and returns; otherwise it goes on to construct the windows \<^verbatim>\<open>w0\<close> and \<^verbatim>\<open>w1\<close>.
\<close>

definition main_mode :: "env \<Rightarrow> string list \<Rightarrow> mode" where
  "main_mode E argv = (if isCommandMode (arg_loop E argv) then CommandMode else GuiMode)"

subsection \<open>Reading a trace\<close>

text \<open>The events an outcome has added to the trace of the state it started from.\<close>

definition new_events :: "state \<Rightarrow> outcome \<Rightarrow> event list" where
  "new_events st r = drop (length (trace st)) (trace (final_state r))"

text \<open>The window an event is a call on, if it is a call on a window.\<close>

fun event_window :: "event \<Rightarrow> window option" where
  "event_window (SetTitle w _ _) = Some w"
| "event_window (Show w _) = Some w"
| "event_window (Hide w _) = Some w"
| "event_window (Navigate w _ _) = Some w"
| "event_window (SetSize w _ _ _ _) = Some w"
| "event_window (GetScreenSize w) = Some w"
| "event_window (OnMessage w _) = Some w"
| "event_window (SetSystemMenu w _ _) = Some w"
| "event_window (OpenExternal w _) = Some w"
| "event_window (WindowExit w _) = Some w"
| "event_window (Eval w _) = Some w"
| "event_window (ShowInspector w) = Some w"
| "event_window (OpenDialog w _ _ _ _ _ _ _ _) = Some w"
| "event_window (SetContextMenu w _ _) = Some w"
| "event_window (WindowKill w) = Some w"
| "event_window _ = None"

subsection \<open>Concrete inputs\<close>

text \<open>
  An environment to evaluate the callbacks in: the parser answers every line with the
  command given, the string helpers mark what they were applied to, every screen is
  1920 by 1080 and the backend has process id 4242.
\<close>

definition sample_env :: "string \<Rightarrow> int \<Rightarrow> (string \<times> string) list \<Rightarrow> env" where
  "sample_env nm idx kvs =
     \<lparr>parse = (\<lambda>line. \<lparr>name = nm, index = idx,
                        get = (\<lambda>key. case map_of kvs key of None \<Rightarrow> '''' | Some v \<Rightarrow> v)\<rparr>),
      decodeURIComponent = (\<lambda>s. ''dec('' @ s @ '')''),
      encodeURIComponent = (\<lambda>s. ''enc('' @ s @ '')''),
      resolveToMainProcess = (\<lambda>seq st v. ''resolve;'' @ seq @ '';'' @ st @ '';'' @ v),
      resolveToRenderProcess = (\<lambda>seq st v. ''render;'' @ seq @ '';'' @ st @ '';'' @ v),
      emitToRenderProcess = (\<lambda>ev v. ''emit;'' @ ev @ '';'' @ v),
      getScreenSize = (\<lambda>w. \<lparr>height = 1080, width = 1920\<rparr>),
      getPID = 4242,
      replace = (\<lambda>s a b. s)\<rparr>"

text \<open>
  The same environment with a parser that tells replies apart: a line that starts with
  \<^verbatim>\<open>resolve;\<close>, as the replies of this environment's \<^verbatim>\<open>resolveToMainProcess\<close> do, is a
  command named \<^verbatim>\<open>resolve\<close> with index 0 and no fields.
\<close>

definition reply_env :: "string \<Rightarrow> int \<Rightarrow> (string \<times> string) list \<Rightarrow> env" where
  "reply_env nm idx kvs =
     (sample_env nm idx kvs)
       \<lparr>parse := (\<lambda>line. if take 8 line = ''resolve;''
                         then \<lparr>name = ''resolve'', index = 0, get = (\<lambda>key. '''')\<rparr>
                         else parse (sample_env nm idx kvs) line)\<rparr>"

text \<open>The state when the event loop of GUI mode starts, and the one of command mode.\<close>

definition gui_state :: state where
  "gui_state = \<lparr>exitCode = 0, shutdownHandler = GuiModeHandler, trace = []\<rparr>"

definition command_state :: state where
  "command_state = \<lparr>exitCode = 0, shutdownHandler = CommandModeHandler, trace = []\<rparr>"

section \<open>Properties\<close>

subsection \<open>Auxiliary facts\<close>

lemmas stoi_eval = stoi_def isspace_def digit_val_def INT_MIN_def INT_MAX_def

lemmas to_string_eval = to_string_def digits10.simps digit_char_def

lemma stoi_examples:
  "stoi ''42'' = Inr 42" "stoi '' -7up'' = Inr (- 7)" "stoi '''' = Inl InvalidArgument"
  "stoi ''abc'' = Inl InvalidArgument" "stoi ''2147483648'' = Inl OutOfRange"
  "stoi ''-2147483648'' = Inr (- 2147483648)"
  by (simp_all add: stoi_eval)

text \<open>
  The two library models agree: \<^verbatim>\<open>std::stoi\<close> reads back every \<^verbatim>\<open>int\<close> that
  \<^verbatim>\<open>std::to_string\<close> has written.
\<close>

lemma digit_cases: "d < 10 \<Longrightarrow> d \<in> set [0, 1, 2, 3, 4, 5, 6, 7, 8, 9::nat]"
  by (simp; arith)

lemma digit_val_digit_char: "d < 10 \<Longrightarrow> digit_val (digit_char d) = Some d"
  using digit_cases [of d] by (auto simp add: digit_val_def digit_char_def)

lemma digit_char_plain:
  "d < 10 \<Longrightarrow>
   \<not> isspace (digit_char d) \<and> digit_char d \<noteq> CHR ''-'' \<and> digit_char d \<noteq> CHR ''+''"
  using digit_cases [of d] by (auto simp add: isspace_def digit_char_def)

lemma digits10_head: "\<exists>d r. d < 10 \<and> digits10 n = digit_char d # r"
proof (induction n rule: digits10.induct)
  case (1 n)
  show ?case
  proof (cases "n < 10")
    case True
    then show ?thesis by (subst digits10.simps) auto
  next
    case False
    with 1 obtain d r where "d < 10" "digits10 (n div 10) = digit_char d # r" by auto
    with False show ?thesis by (subst digits10.simps) auto
  qed
qed

lemma digits_value_digits10:
  "digits_value acc (digits10 n @ rest) =
     digits_value (acc * 10 ^ length (digits10 n) + n) rest"
proof (induction n arbitrary: acc rest rule: digits10.induct)
  case (1 n)
  show ?case
  proof (cases "n < 10")
    case True
    then show ?thesis
      by (subst (1 2) digits10.simps) (simp add: digit_val_digit_char mult.commute)
  next
    case False
    have "digits_value acc (digits10 n @ rest) =
            digits_value acc (digits10 (n div 10) @ digit_char (n mod 10) # rest)"
      using False by (subst digits10.simps) simp
    also have "\<dots> = digits_value (acc * 10 ^ length (digits10 (n div 10)) + n div 10)
                       (digit_char (n mod 10) # rest)"
      using False by (rule "1.IH")
    also have "\<dots> = digits_value
        (10 * (acc * 10 ^ length (digits10 (n div 10)) + n div 10) + n mod 10) rest"
      by (simp add: digit_val_digit_char)
    also have "10 * (acc * 10 ^ length (digits10 (n div 10)) + n div 10) + n mod 10 =
        acc * 10 ^ length (digits10 n) + n"
      using False by (subst (2) digits10.simps) (simp add: algebra_simps)
    finally show ?thesis .
  qed
qed

lemma stoi_to_string:
  assumes "INT_MIN \<le> i" and "i \<le> INT_MAX"
  shows "stoi (to_string i) = Inr i"
proof -
  define n where "n = nat \<bar>i\<bar>"
  obtain d r where d: "d < 10" "digits10 n = digit_char d # r"
    using digits10_head by blast
  note plain = digit_char_plain [OF d(1)] digit_val_digit_char [OF d(1)]
  have val: "digits_value 0 (digit_char d # r) = n"
    using digits_value_digits10 [of 0 n "[]"] d(2) by simp
  show ?thesis
  proof (cases "i < 0")
    case True
    then have "to_string i = CHR ''-'' # digit_char d # r"
      using d(2) by (simp add: to_string_def n_def)
    moreover have "- int n = i"
      using True by (simp add: n_def)
    ultimately show ?thesis
      using assms plain val by (simp add: stoi_def isspace_def Let_def del: digits_value.simps)
  next
    case False
    then have "to_string i = digit_char d # r"
      using d(2) by (simp add: to_string_def n_def)
    moreover have "int n = i"
      using False by (simp add: n_def)
    ultimately show ?thesis
      using assms plain val by (simp add: stoi_def Let_def del: digits_value.simps)
  qed
qed

lemma find_at_0_iff: "find_at_0 s p \<longleftrightarrow> (\<exists>r. s = p @ r)"
  unfolding find_at_0_def by (metis append_eq_conv_conj append_take_drop_id)

lemma find_at_0_test_dash: "find_at_0 s ''--test'' \<Longrightarrow> find_at_0 s ''-''"
  by (auto simp add: find_at_0_iff)

lemma new_events_Return_append:
  "new_events st (Return (st\<lparr>trace := trace st @ evs\<rparr>)) = evs"
  by (simp add: new_events_def final_state_def)

lemma new_events_Exited_append:
  "new_events st (Exited n (st\<lparr>trace := trace st @ evs\<rparr>)) = evs"
  by (simp add: new_events_def final_state_def)

lemma bind_outcome_run_Nil [simp]: "bind_outcome r (run []) = r"
  by (cases r) simp_all

text \<open>\<^verbatim>\<open>onMessage\<close> always returns, having made exactly one call.\<close>

lemma onMessage_one_event:
  "\<exists>ev st'. onMessage E msg st = Return st' \<and> trace st' = trace st @ [ev]"
proof -
  let ?n = "name (parse E msg)"
  consider (title) "?n = ''title''" | (exit) "?n = ''exit''" | (hide) "?n = ''hide''"
    | (inspect) "?n = ''inspect''" | (external) "?n = ''external''" | (dialog) "?n = ''dialog''"
    | (context_) "?n = ''context''"
    | (other) "?n \<notin> set [''title'', ''exit'', ''hide'', ''inspect'', ''external'',
         ''dialog'', ''context'']"
    by auto
  then show ?thesis
  proof cases
    case exit
    then show ?thesis
      by (simp add: onMessage_def Let_def call_def split: sum.splits)
  qed (simp_all add: onMessage_def Let_def call_def)
qed

lemma call_on_window:
  "event_window ev = Some w \<Longrightarrow>
   \<exists>ev'. call ev st = Return (st\<lparr>trace := trace st @ [ev']\<rparr>) \<and> event_window ev' = Some w"
  by (auto simp add: call_def)

lemma onMessage_returns: "\<exists>st'. onMessage E msg st = Return st'"
  using onMessage_one_event [of E msg st] by blast

lemma onMessage_keeps_trace:
  "\<exists>ev. trace (final_state (onMessage E msg st)) = trace st @ [ev]"
  using onMessage_one_event [of E msg st] by (auto simp add: final_state_def)

text \<open>The GUI-mode lambda run from start to end, through the global or called directly.\<close>

lemma guiShutdownHandler_outcome:
  "guiShutdownHandler E code st =
     Exited code (st\<lparr>trace := trace st @
       [ProcessKill (getPID E), WindowKill w0, WindowKill w1, AppKill, ProgramExit code]\<rparr>)"
  by (simp add: guiShutdownHandler_def guiShutdownBody_def call_def exit_program_def)

lemma invokeShutdownHandler_gui:
  "shutdownHandler st = GuiModeHandler \<Longrightarrow>
   invokeShutdownHandler E code st = guiShutdownHandler E code st"
  by (simp add: invokeShutdownHandler_def)

subsection \<open>The branches of \<^verbatim>\<open>onStdOut\<close> that call the message callback\<close>

text \<open>
  In the branches \<^verbatim>\<open>getScreenSize\<close>, \<^verbatim>\<open>external\<close> and \<^verbatim>\<open>exit\<close> the closure ends with
  \<^verbatim>\<open>w.onMessage(reply)\<close>: after its own calls on the window, its outcome is that of
  \<^verbatim>\<open>onMessage\<close> on the reply.
\<close>

lemma onStdOut_getScreenSize_branch:
  assumes "name (parse E out) = ''getScreenSize''"
  shows \<open>onStdOut E out st =
     (let w = (if index (parse E out) = 0 then w0 else w1);
          reply = resolveToMainProcess E (get (parse E out) ''seq'') ''0''
                    (encodeURIComponent E
                       (''{"width":'' @ to_string (width (getScreenSize E w)) @
                        '',"height":'' @ to_string (height (getScreenSize E w)) @ ''}''))
      in onMessage E reply
           (st\<lparr>trace := trace st @ [GetScreenSize w, OnMessage w reply]\<rparr>))\<close>
  using assms by (simp add: onStdOut_def window_onMessage_def Let_def call_def)

lemma onStdOut_external_branch:
  assumes "name (parse E out) = ''external''"
  shows "onStdOut E out st =
     (let w = (if index (parse E out) = 0 then w0 else w1);
          uri = decodeURIComponent E (get (parse E out) ''value'');
          reply = resolveToMainProcess E (get (parse E out) ''seq'') ''0'' ''null''
      in if get (parse E out) ''seq'' \<noteq> []
         then onMessage E reply
                (st\<lparr>trace := trace st @ [OpenExternal w uri, OnMessage w reply]\<rparr>)
         else Return (st\<lparr>trace := trace st @ [OpenExternal w uri]\<rparr>))"
  using assms by (simp add: onStdOut_def window_onMessage_def Let_def call_def)

lemma onStdOut_exit_branch:
  assumes "name (parse E out) = ''exit''"
  shows "onStdOut E out st =
     (let w = (if index (parse E out) = 0 then w0 else w1);
          code = (case stoi (get (parse E out) ''value'') of
                    Inl e \<Rightarrow> exitCode st
                  | Inr n \<Rightarrow> n);
          reply = resolveToMainProcess E (get (parse E out) ''seq'') ''0'' ''null''
      in if get (parse E out) ''seq'' \<noteq> []
         then onMessage E reply
                (st\<lparr>exitCode := code,
                    trace := trace st @ [WindowExit w code, OnMessage w reply]\<rparr>)
         else Return (st\<lparr>exitCode := code, trace := trace st @ [WindowExit w code]\<rparr>))"
  using assms
  by (cases "stoi (get (parse E out) ''value'')")
    (simp_all add: onStdOut_def window_onMessage_def Let_def call_def)

subsection \<open>The \<^verbatim>\<open>exit\<close> command whose value is not an integer\<close>

text \<open>
  In GUI mode both tables keep \<^verbatim>\<open>std::stoi\<close> inside \<^verbatim>\<open>try { } catch (...) { }\<close>: nothing
  is thrown, \<^verbatim>\<open>exitCode\<close> keeps the value it had (0 from its initialisation, unless an
  earlier \<^verbatim>\<open>exit\<close> command stored another one) and the window's \<^verbatim>\<open>exit\<close> is called with
  it.
\<close>

lemma onStdOut_exit_unparseable:
  assumes "name (parse E out) = ''exit''" and "stoi (get (parse E out) ''value'') = Inl e"
  shows "onStdOut E out st =
     (let w = (if index (parse E out) = 0 then w0 else w1);
          reply = resolveToMainProcess E (get (parse E out) ''seq'') ''0'' ''null''
      in if get (parse E out) ''seq'' = []
         then Return (st\<lparr>trace := trace st @ [WindowExit w (exitCode st)]\<rparr>)
         else onMessage E reply
                (st\<lparr>trace := trace st @ [WindowExit w (exitCode st), OnMessage w reply]\<rparr>))"
  using assms by (simp add: onStdOut_def window_onMessage_def Let_def call_def)

lemma onMessage_exit_unparseable:
  assumes "name (parse E out) = ''exit''"
    and "stoi (decodeURIComponent E (get (parse E out) ''value'')) = Inl e"
  shows "onMessage E out st =
     Return (st\<lparr>trace := trace st @
        [WindowExit (if index (parse E out) = 0 then w0 else w1) (exitCode st)]\<rparr>)"
  using assms by (simp add: onMessage_def Let_def call_def)

text \<open>
  In command mode the call \<^verbatim>\<open>stoi(cmd.get("value"))\<close> of line 158 stands in no \<^verbatim>\<open>try\<close>:
  the exception leaves the callback, \<^verbatim>\<open>exitCode\<close> is not assigned and \<^verbatim>\<open>exit\<close> is not
  called.
\<close>

lemma commandModeStdOut_exit_unparseable:
  assumes "name (parse E out) = ''exit''" and "stoi (get (parse E out) ''value'') = Inl e"
  shows "commandModeStdOut E out st = Throw e st"
  using assms by (simp add: commandModeStdOut_def Let_def)

text \<open>
  Claim C1: for every \<^verbatim>\<open>exit\<close> command whose value is not a parseable integer, routing
  resolves the exit code to 0 and never lets a parse exception reach the caller, in
  backend-to-window routing, in window-to-backend routing and in command mode.

  The two GUI-mode tables do so (the two lemmas above, from \<^verbatim>\<open>exitCode = 0\<close>). The
  command-mode callback does not: on a line that parses to the name \<^verbatim>\<open>exit\<close> and the value
  \<^verbatim>\<open>abc\<close> it throws \<^verbatim>\<open>std::invalid_argument\<close>, and the program does not exit with code 0.
\<close>

theorem commandMode_exit_abc_throws:
  "commandModeStdOut (sample_env ''exit'' 0 [(''value'', ''abc'')]) ''exit value=abc''
     command_state = Throw InvalidArgument command_state"
  by (simp add: commandModeStdOut_def sample_env_def stoi_eval)

subsection \<open>The window-to-backend table\<close>



subsection \<open>The stdout callback of command mode\<close>

text \<open>
  Claim C3: in command mode, a line of the backend's standard output whose parsed name is
  not \<^verbatim>\<open>exit\<close> has its \<^verbatim>\<open>value\<close> field percent-decoded and written, with a line end, to
  the host's standard output; a line whose parsed name is \<^verbatim>\<open>exit\<close> ends the whole
  program with the integer that \<^verbatim>\<open>std::stoi\<close> reads from its \<^verbatim>\<open>value\<close> field.
\<close>

theorem commandModeStdOut_echo_or_exit:
  "(name (parse E out) \<noteq> ''exit'' \<longrightarrow>
      commandModeStdOut E out st =
        Return (st\<lparr>trace := trace st @
           [Cout (decodeURIComponent E (get (parse E out) ''value'') @ [CHR 0x0A])]\<rparr>)) \<and>
   (name (parse E out) = ''exit'' \<longrightarrow>
      (\<forall>n. stoi (get (parse E out) ''value'') = Inr n \<longrightarrow>
         commandModeStdOut E out st =
           Exited n (st\<lparr>exitCode := n, trace := trace st @ [ProgramExit n]\<rparr>)))"
  by (simp add: commandModeStdOut_def Let_def call_def exit_program_def)

theorem commandModeStdOut_echo_or_exit_witness:
  "commandModeStdOut (sample_env ''stdout'' 0 [(''value'', ''built%20ok'')])
       ''stdout value=built%20ok'' command_state =
     Return (command_state\<lparr>trace := [Cout (''dec(built%20ok)'' @ [CHR 0x0A])]\<rparr>) \<and>
   commandModeStdOut (sample_env ''exit'' 0 [(''value'', ''3'')]) ''exit value=3''
       command_state =
     Exited 3 (command_state\<lparr>exitCode := 3, trace := [ProgramExit 3]\<rparr>)"
  using commandModeStdOut_echo_or_exit
          [of "sample_env ''stdout'' 0 [(''value'', ''built%20ok'')]"
              "''stdout value=built%20ok''" command_state]
        commandModeStdOut_echo_or_exit
          [of "sample_env ''exit'' 0 [(''value'', ''3'')]" "''exit value=3''" command_state]
  by (simp add: sample_env_def command_state_def stoi_eval)

subsection \<open>Shutdown\<close>

text \<open>
  Claim C4: an invocation of the shutdown handler in GUI mode kills the backend process
  first, then window 0, then window 1, then the application, and last ends the process
  with the code it was given; when \<^verbatim>\<open>SIGINT\<close> or \<^verbatim>\<open>SIGHUP\<close> triggers it through
  \<^verbatim>\<open>signalHandler\<close>, that code is the number of the signal.
\<close>

theorem shutdown_order_and_signal_code:
  assumes "shutdownHandler st = GuiModeHandler"
  shows "invokeShutdownHandler E code st =
           Exited code (st\<lparr>trace := trace st @
             [ProcessKill (getPID E), WindowKill w0, WindowKill w1, AppKill,
              ProgramExit code]\<rparr>) \<and>
         signalHandler E SIGINT st =
           Exited SIGINT (st\<lparr>trace := trace st @
             [ProcessKill (getPID E), WindowKill w0, WindowKill w1, AppKill,
              ProgramExit SIGINT]\<rparr>) \<and>
         signalHandler E SIGHUP st =
           Exited SIGHUP (st\<lparr>trace := trace st @
             [ProcessKill (getPID E), WindowKill w0, WindowKill w1, AppKill,
              ProgramExit SIGHUP]\<rparr>)"
  using assms
  by (simp add: signalHandler_def invokeShutdownHandler_gui guiShutdownHandler_outcome)

theorem shutdown_order_and_signal_code_witness:
  "invokeShutdownHandler (sample_env [] 0 []) 42 gui_state =
     Exited 42 (gui_state\<lparr>trace :=
       [ProcessKill 4242, WindowKill w0, WindowKill w1, AppKill, ProgramExit 42]\<rparr>) \<and>
   signalHandler (sample_env [] 0 []) SIGINT gui_state =
     Exited 2 (gui_state\<lparr>trace :=
       [ProcessKill 4242, WindowKill w0, WindowKill w1, AppKill, ProgramExit 2]\<rparr>) \<and>
   signalHandler (sample_env [] 0 []) SIGHUP gui_state =
     Exited 1 (gui_state\<lparr>trace :=
       [ProcessKill 4242, WindowKill w0, WindowKill w1, AppKill, ProgramExit 1]\<rparr>)"
  using shutdown_order_and_signal_code [of gui_state "sample_env [] 0 []" 42]
  by (simp add: sample_env_def gui_state_def SIGINT_def SIGHUP_def)

text \<open>
  Claim C5: invoking the shutdown handler twice in succession, as by a double signal,
  performs the teardown at most once; the backend process is never killed twice and the
  window and application steps are never run again.

  The lambda holds no flag and no test: whenever it is entered it runs all its statements.
  With \<^verbatim>\<open>SIGINT\<close> delivered first and \<^verbatim>\<open>SIGHUP\<close> delivered when the first invocation has
  done its four kills and not yet called \<^verbatim>\<open>exit\<close>, every kill is done twice.
\<close>

theorem shutdown_reentered_kills_twice:
  "new_events gui_state
     (signalDuringShutdown (sample_env [] 0 []) 4 SIGINT SIGHUP gui_state) =
     [ProcessKill 4242, WindowKill w0, WindowKill w1, AppKill,
      ProcessKill 4242, WindowKill w0, WindowKill w1, AppKill, ProgramExit 1] \<and>
   count_list
     (new_events gui_state
        (signalDuringShutdown (sample_env [] 0 []) 4 SIGINT SIGHUP gui_state))
     (ProcessKill 4242) = 2"
  by (simp add: signalDuringShutdown_def guiShutdownBody_def signalHandler_def
      invokeShutdownHandler_def guiShutdownHandler_def call_def exit_program_def
      sample_env_def gui_state_def new_events_def final_state_def SIGHUP_def)

text \<open>
  Claim C5, amended. Two invocations one after the other tear down once, because the
  first ends the process with \<^verbatim>\<open>exit\<close> and the second is never reached; one invocation
  kills the backend once. There is no guard against re-entry: a signal that arrives when
  an invocation has done \<open>k\<close> of its four kills and has not yet called \<^verbatim>\<open>exit\<close> runs the
  whole teardown again from the start, so these \<open>k\<close> kills are done a second time, and
  the process ends with the code of the second invocation.
\<close>

theorem shutdown_twice:
  assumes "shutdownHandler st = GuiModeHandler"
  shows "run [invokeShutdownHandler E code, invokeShutdownHandler E signal] st =
           invokeShutdownHandler E code st \<and>
         count_list (new_events st (invokeShutdownHandler E code st))
           (ProcessKill (getPID E)) = 1 \<and>
         (k \<le> 4 \<longrightarrow>
            signalDuringShutdown E k code signal st =
              Exited signal (st\<lparr>trace := trace st @
                take k [ProcessKill (getPID E), WindowKill w0, WindowKill w1, AppKill] @
                [ProcessKill (getPID E), WindowKill w0, WindowKill w1, AppKill,
                 ProgramExit signal]\<rparr>))"
proof (intro conjI impI)
  show "run [invokeShutdownHandler E code, invokeShutdownHandler E signal] st =
          invokeShutdownHandler E code st"
    using assms by (simp add: invokeShutdownHandler_gui guiShutdownHandler_outcome)
next
  show "count_list (new_events st (invokeShutdownHandler E code st))
          (ProcessKill (getPID E)) = 1"
    using assms
    by (simp add: invokeShutdownHandler_gui guiShutdownHandler_outcome
        new_events_Exited_append)
next
  assume "k \<le> 4"
  then consider "k = 0" | "k = 1" | "k = 2" | "k = 3" | "k = 4"
    by linarith
  then show "signalDuringShutdown E k code signal st =
      Exited signal (st\<lparr>trace := trace st @
        take k [ProcessKill (getPID E), WindowKill w0, WindowKill w1, AppKill] @
        [ProcessKill (getPID E), WindowKill w0, WindowKill w1, AppKill,
         ProgramExit signal]\<rparr>)"
    using assms
    by cases
      (simp_all add: signalDuringShutdown_def guiShutdownBody_def signalHandler_def
        invokeShutdownHandler_def guiShutdownHandler_def call_def exit_program_def
        eval_nat_numeral)
qed

theorem shutdown_twice_witness:
  "run [invokeShutdownHandler (sample_env [] 0 []) 2,
        invokeShutdownHandler (sample_env [] 0 []) 1] gui_state =
     invokeShutdownHandler (sample_env [] 0 []) 2 gui_state \<and>
   count_list (new_events gui_state (invokeShutdownHandler (sample_env [] 0 []) 2 gui_state))
     (ProcessKill 4242) = 1 \<and>
   signalDuringShutdown (sample_env [] 0 []) 1 2 1 gui_state =
     Exited 1 (gui_state\<lparr>trace :=
       [ProcessKill 4242, ProcessKill 4242, WindowKill w0, WindowKill w1, AppKill,
        ProgramExit 1]\<rparr>)"
  using shutdown_twice [of gui_state "sample_env [] 0 []" 2 1 1]
  by (simp add: sample_env_def gui_state_def)

subsection \<open>The backend-to-window table\<close>

text \<open>
  Claim C6: for a command named \<^verbatim>\<open>getScreenSize\<close> the router asks the targeted window
  for its screen size (width \<open>W\<close>, height \<open>H\<close>) and delivers to that window's message
  callback the reply that \<^verbatim>\<open>resolveToMainProcess\<close> builds from the command's \<^verbatim>\<open>seq\<close>,
  the state \<^verbatim>\<open>"0"\<close> and the percent-encoding of the string \<^verbatim>\<open>{"width":W,"height":H}\<close>,
  the numbers in decimal. The callback is the \<^verbatim>\<open>onMessage\<close> lambda: after the two calls
  on the window the outcome is that of \<^verbatim>\<open>onMessage\<close> on the reply.
\<close>

theorem onStdOut_getScreenSize:
  assumes "name (parse E out) = ''getScreenSize''"
  shows \<open>onStdOut E out st =
     (let w = (if index (parse E out) = 0 then w0 else w1);
          reply = resolveToMainProcess E (get (parse E out) ''seq'') ''0''
                    (encodeURIComponent E
                       (''{"width":'' @ to_string (width (getScreenSize E w)) @
                        '',"height":'' @ to_string (height (getScreenSize E w)) @ ''}''))
      in onMessage E reply
           (st\<lparr>trace := trace st @ [GetScreenSize w, OnMessage w reply]\<rparr>))\<close>
  using assms by (rule onStdOut_getScreenSize_branch)

theorem onStdOut_getScreenSize_witness:
  \<open>onStdOut (reply_env ''getScreenSize'' 0 [(''seq'', ''7'')])
     ''getScreenSize index=0 seq=7'' gui_state =
   Return (gui_state\<lparr>trace :=
     [GetScreenSize w0,
      OnMessage w0 ''resolve;7;0;enc({"width":1920,"height":1080})'',
      ProcessWrite ''resolve;7;0;enc({"width":1920,"height":1080})'']\<rparr>)\<close>
  using onStdOut_getScreenSize
          [of "reply_env ''getScreenSize'' 0 [(''seq'', ''7'')]"
              "''getScreenSize index=0 seq=7''" gui_state]
  by (simp add: reply_env_def sample_env_def gui_state_def to_string_eval
      onMessage_def call_def Let_def)

text \<open>
  What the source fixes for a \<^verbatim>\<open>size\<close> command whose \<^verbatim>\<open>width\<close> or \<^verbatim>\<open>height\<close> field
  \<^verbatim>\<open>std::stoi\<close> rejects: the exception leaves the dispatched closure before any call on a
  window, and the shared state is as it was. Whether the closures of later commands still
  run is decided by what called the closure, \<^verbatim>\<open>App::dispatch\<close> and the event loop.
\<close>

lemma onStdOut_size_unparseable:
  assumes "name (parse E out) = ''size''"
    and "stoi (get (parse E out) ''width'') = Inl e \<or>
         (\<exists>wd. stoi (get (parse E out) ''width'') = Inr wd) \<and>
         stoi (get (parse E out) ''height'') = Inl e"
  shows "onStdOut E out st = Throw e st"
  using assms by (auto simp add: onStdOut_def Let_def)

text \<open>
  Claim C8: for a command named \<^verbatim>\<open>external\<close> the router opens the percent-decoded value
  as an external URI on the targeted window, and delivers the reply
  \<^verbatim>\<open>resolveToMainProcess(seq, "0", "null")\<close> to that window's message callback if and only
  if the \<^verbatim>\<open>seq\<close> field is not empty. With an empty \<^verbatim>\<open>seq\<close> the one call
  \<^verbatim>\<open>openExternal\<close> is all that happens; otherwise the callback, the \<^verbatim>\<open>onMessage\<close> lambda,
  is called with the reply and the outcome is that of \<^verbatim>\<open>onMessage\<close> on it.
\<close>

theorem onStdOut_external:
  assumes "name (parse E out) = ''external''"
  shows "(let w = (if index (parse E out) = 0 then w0 else w1);
              uri = decodeURIComponent E (get (parse E out) ''value'');
              reply = resolveToMainProcess E (get (parse E out) ''seq'') ''0'' ''null''
          in onStdOut E out st =
               (if get (parse E out) ''seq'' \<noteq> []
                then onMessage E reply
                       (st\<lparr>trace := trace st @ [OpenExternal w uri, OnMessage w reply]\<rparr>)
                else Return (st\<lparr>trace := trace st @ [OpenExternal w uri]\<rparr>))) \<and>
         ((\<exists>w msg. OnMessage w msg \<in> set (new_events st (onStdOut E out st))) \<longleftrightarrow>
            get (parse E out) ''seq'' \<noteq> [])"
proof -
  let ?w = "if index (parse E out) = 0 then w0 else w1"
  let ?uri = "decodeURIComponent E (get (parse E out) ''value'')"
  let ?reply = "resolveToMainProcess E (get (parse E out) ''seq'') ''0'' ''null''"
  let ?st2 = "st\<lparr>trace := trace st @ [OpenExternal ?w ?uri, OnMessage ?w ?reply]\<rparr>"
  have eq: "onStdOut E out st =
      (if get (parse E out) ''seq'' \<noteq> [] then onMessage E ?reply ?st2
       else Return (st\<lparr>trace := trace st @ [OpenExternal ?w ?uri]\<rparr>))"
    using onStdOut_external_branch [OF assms, of st] by (simp add: Let_def)
  obtain ev where ev: "trace (final_state (onMessage E ?reply ?st2)) = trace ?st2 @ [ev]"
    using onMessage_keeps_trace by blast
  have events: "new_events st (onStdOut E out st) =
      (if get (parse E out) ''seq'' \<noteq> []
       then [OpenExternal ?w ?uri, OnMessage ?w ?reply, ev] else [OpenExternal ?w ?uri])"
    using ev by (simp add: eq new_events_def final_state_def)
  have "(\<exists>w msg. OnMessage w msg \<in> set (new_events st (onStdOut E out st))) \<longleftrightarrow>
      get (parse E out) ''seq'' \<noteq> []"
    unfolding events by auto
  with eq show ?thesis by (simp add: Let_def)
qed

theorem onStdOut_external_witness:
  "onStdOut (reply_env ''external'' 0 [(''seq'', ''9''), (''value'', ''https%3A%2F%2Fa.b'')])
     ''external'' gui_state =
   Return (gui_state\<lparr>trace :=
     [OpenExternal w0 ''dec(https%3A%2F%2Fa.b)'', OnMessage w0 ''resolve;9;0;null'',
      ProcessWrite ''resolve;9;0;null'']\<rparr>) \<and>
   onStdOut (reply_env ''external'' 1 [(''value'', ''https%3A%2F%2Fa.b'')])
     ''external'' gui_state =
   Return (gui_state\<lparr>trace := [OpenExternal w1 ''dec(https%3A%2F%2Fa.b)'']\<rparr>)"
  using onStdOut_external
          [of "reply_env ''external'' 0 [(''seq'', ''9''), (''value'', ''https%3A%2F%2Fa.b'')]"
              "''external''" gui_state]
        onStdOut_external
          [of "reply_env ''external'' 1 [(''value'', ''https%3A%2F%2Fa.b'')]"
              "''external''" gui_state]
  by (simp add: reply_env_def sample_env_def gui_state_def Let_def onMessage_def call_def)

subsection \<open>The target window\<close>

text \<open>
  Claim C10: in both tables a command whose index is 0 targets window 0 and a command
  with any other index (2, a larger number, a negative number) targets window 1, and no
  index is rejected or treated as an error.

  With \<open>w\<close> the window \<^verbatim>\<open>cmd.index == 0 ? w0 : w1\<close>, every verb that acts on a window
  does reach \<open>w\<close>, whatever the index. In the backend-to-window table the verbs with one
  call make that call on \<open>w\<close> and return; \<^verbatim>\<open>size\<close> calls \<^verbatim>\<open>setSize\<close> on \<open>w\<close> when its two
  numbers parse; \<^verbatim>\<open>getScreenSize\<close>, \<^verbatim>\<open>external\<close> and \<^verbatim>\<open>exit\<close> make their calls on \<open>w\<close>,
  the call of \<open>w\<close>'s message callback included, and what follows is \<^verbatim>\<open>onMessage\<close> routing
  the reply (a command of its own, with its own index). In the window-to-backend table
  each of the seven local verbs makes its one call on \<open>w\<close>. \<^verbatim>\<open>onMessage\<close> always returns,
  and \<^verbatim>\<open>onStdOut\<close> returns unless the command is a \<^verbatim>\<open>size\<close> whose \<^verbatim>\<open>width\<close> or \<^verbatim>\<open>height\<close>
  \<^verbatim>\<open>std::stoi\<close> rejects.
\<close>

theorem index_selects_window:
  "(let w = (if index (parse E out) = 0 then w0 else w1);
        n = name (parse E out);
        seq = get (parse E out) ''seq''
    in
    (n \<in> set [''title'', ''show'', ''hide'', ''navigate'', ''menu'', ''resolve'', ''send''] \<longrightarrow>
       (\<exists>ev. onStdOut E out st = Return (st\<lparr>trace := trace st @ [ev]\<rparr>) \<and>
             event_window ev = Some w)) \<and>
    (n = ''size'' \<longrightarrow>
       (\<forall>wd ht. stoi (get (parse E out) ''width'') = Inr wd \<and>
                stoi (get (parse E out) ''height'') = Inr ht \<longrightarrow>
          onStdOut E out st = Return (st\<lparr>trace := trace st @ [SetSize w seq wd ht 0]\<rparr>))) \<and>
    (n = ''getScreenSize'' \<longrightarrow>
       (\<exists>reply. onStdOut E out st =
          onMessage E reply (st\<lparr>trace := trace st @ [GetScreenSize w, OnMessage w reply]\<rparr>))) \<and>
    (n = ''external'' \<longrightarrow>
       (\<exists>uri reply. onStdOut E out st =
          (if seq = [] then Return (st\<lparr>trace := trace st @ [OpenExternal w uri]\<rparr>)
           else onMessage E reply
                  (st\<lparr>trace := trace st @ [OpenExternal w uri, OnMessage w reply]\<rparr>)))) \<and>
    (n = ''exit'' \<longrightarrow>
       (\<exists>code reply. onStdOut E out st =
          (if seq = []
           then Return (st\<lparr>exitCode := code, trace := trace st @ [WindowExit w code]\<rparr>)
           else onMessage E reply
                  (st\<lparr>exitCode := code,
                      trace := trace st @ [WindowExit w code, OnMessage w reply]\<rparr>)))) \<and>
    (n \<in> set [''title'', ''exit'', ''hide'', ''inspect'', ''external'', ''dialog'', ''context''] \<longrightarrow>
       (\<exists>ev. new_events st (onMessage E out st) = [ev] \<and> event_window ev = Some w)) \<and>
    (\<exists>st'. onMessage E out st = Return st') \<and>
    ((\<exists>st'. onStdOut E out st = Return st') \<or>
     n = ''size'' \<and>
     ((\<exists>e. stoi (get (parse E out) ''width'') = Inl e) \<or>
      (\<exists>e. stoi (get (parse E out) ''height'') = Inl e))))"
proof -
  let ?n = "name (parse E out)"
  let ?w = "if index (parse E out) = 0 then w0 else w1"
  let ?seq = "get (parse E out) ''seq''"
  have single: "?n \<in> set [''title'', ''show'', ''hide'', ''navigate'', ''menu'', ''resolve'',
        ''send''] \<longrightarrow>
      (\<exists>ev. onStdOut E out st = Return (st\<lparr>trace := trace st @ [ev]\<rparr>) \<and>
            event_window ev = Some ?w)"
  proof
    assume "?n \<in> set [''title'', ''show'', ''hide'', ''navigate'', ''menu'', ''resolve'',
        ''send'']"
    then consider "?n = ''title''" | "?n = ''show''" | "?n = ''hide''" | "?n = ''navigate''"
      | "?n = ''menu''" | "?n = ''resolve''" | "?n = ''send''"
      by auto
    then show "\<exists>ev. onStdOut E out st = Return (st\<lparr>trace := trace st @ [ev]\<rparr>) \<and>
        event_window ev = Some ?w"
      by cases (simp_all add: onStdOut_def Let_def call_on_window)
  qed
  have size: "?n = ''size'' \<longrightarrow>
      (\<forall>wd ht. stoi (get (parse E out) ''width'') = Inr wd \<and>
               stoi (get (parse E out) ''height'') = Inr ht \<longrightarrow>
         onStdOut E out st = Return (st\<lparr>trace := trace st @ [SetSize ?w ?seq wd ht 0]\<rparr>))"
    by (simp add: onStdOut_def Let_def call_def)
  have screen: "?n = ''getScreenSize'' \<longrightarrow>
      (\<exists>reply. onStdOut E out st =
         onMessage E reply (st\<lparr>trace := trace st @ [GetScreenSize ?w, OnMessage ?w reply]\<rparr>))"
  proof
    assume "?n = ''getScreenSize''"
    from onStdOut_getScreenSize_branch [OF this, of st]
    show "\<exists>reply. onStdOut E out st =
        onMessage E reply (st\<lparr>trace := trace st @ [GetScreenSize ?w, OnMessage ?w reply]\<rparr>)"
      unfolding Let_def by (rule exI)
  qed
  have external: "?n = ''external'' \<longrightarrow>
      (\<exists>uri reply. onStdOut E out st =
         (if ?seq = [] then Return (st\<lparr>trace := trace st @ [OpenExternal ?w uri]\<rparr>)
          else onMessage E reply
                 (st\<lparr>trace := trace st @ [OpenExternal ?w uri, OnMessage ?w reply]\<rparr>)))"
  proof
    assume "?n = ''external''"
    from onStdOut_external_branch [OF this, of st]
    have "onStdOut E out st =
        (if ?seq = []
         then Return (st\<lparr>trace := trace st @
                [OpenExternal ?w (decodeURIComponent E (get (parse E out) ''value''))]\<rparr>)
         else onMessage E (resolveToMainProcess E ?seq ''0'' ''null'')
                (st\<lparr>trace := trace st @
                   [OpenExternal ?w (decodeURIComponent E (get (parse E out) ''value'')),
                    OnMessage ?w (resolveToMainProcess E ?seq ''0'' ''null'')]\<rparr>))"
      by (simp add: Let_def)
    then show "\<exists>uri reply. onStdOut E out st =
        (if ?seq = [] then Return (st\<lparr>trace := trace st @ [OpenExternal ?w uri]\<rparr>)
         else onMessage E reply
                (st\<lparr>trace := trace st @ [OpenExternal ?w uri, OnMessage ?w reply]\<rparr>))"
      by (intro exI)
  qed
  have exit: "?n = ''exit'' \<longrightarrow>
      (\<exists>code reply. onStdOut E out st =
         (if ?seq = []
          then Return (st\<lparr>exitCode := code, trace := trace st @ [WindowExit ?w code]\<rparr>)
          else onMessage E reply
                 (st\<lparr>exitCode := code,
                     trace := trace st @ [WindowExit ?w code, OnMessage ?w reply]\<rparr>)))"
  proof
    assume "?n = ''exit''"
    from onStdOut_exit_branch [OF this, of st]
    have "onStdOut E out st =
        (if ?seq = []
         then Return (st\<lparr>exitCode :=
                  (case stoi (get (parse E out) ''value'') of
                     Inl e \<Rightarrow> exitCode st | Inr n \<Rightarrow> n),
                trace := trace st @
                  [WindowExit ?w (case stoi (get (parse E out) ''value'') of
                     Inl e \<Rightarrow> exitCode st | Inr n \<Rightarrow> n)]\<rparr>)
         else onMessage E (resolveToMainProcess E ?seq ''0'' ''null'')
                (st\<lparr>exitCode :=
                    (case stoi (get (parse E out) ''value'') of
                       Inl e \<Rightarrow> exitCode st | Inr n \<Rightarrow> n),
                    trace := trace st @
                      [WindowExit ?w (case stoi (get (parse E out) ''value'') of
                         Inl e \<Rightarrow> exitCode st | Inr n \<Rightarrow> n),
                       OnMessage ?w (resolveToMainProcess E ?seq ''0'' ''null'')]\<rparr>))"
      by (simp add: Let_def)
    then show "\<exists>code reply. onStdOut E out st =
        (if ?seq = []
         then Return (st\<lparr>exitCode := code, trace := trace st @ [WindowExit ?w code]\<rparr>)
         else onMessage E reply
                (st\<lparr>exitCode := code,
                    trace := trace st @ [WindowExit ?w code, OnMessage ?w reply]\<rparr>))"
      by (intro exI)
  qed
  have local: "?n \<in> set [''title'', ''exit'', ''hide'', ''inspect'', ''external'', ''dialog'',
        ''context''] \<longrightarrow>
      (\<exists>ev. new_events st (onMessage E out st) = [ev] \<and> event_window ev = Some ?w)"
  proof
    assume "?n \<in> set [''title'', ''exit'', ''hide'', ''inspect'', ''external'', ''dialog'',
        ''context'']"
    then consider (title) "?n = ''title''" | (exit) "?n = ''exit''" | (hide) "?n = ''hide''"
      | (inspect) "?n = ''inspect''" | (external) "?n = ''external''"
      | (dialog) "?n = ''dialog''" | (context_) "?n = ''context''"
      by auto
    then show "\<exists>ev. new_events st (onMessage E out st) = [ev] \<and> event_window ev = Some ?w"
    proof cases
      case exit
      then show ?thesis
        by (simp add: onMessage_def Let_def call_def new_events_def final_state_def
            split: sum.splits)
    qed (simp_all add: onMessage_def Let_def call_def new_events_def final_state_def)
  qed
  have msg_returns: "\<exists>st'. onMessage E out st = Return st'"
    by (rule onMessage_returns)
  have out_returns: "(\<exists>st'. onStdOut E out st = Return st') \<or>
      ?n = ''size'' \<and>
      ((\<exists>e. stoi (get (parse E out) ''width'') = Inl e) \<or>
       (\<exists>e. stoi (get (parse E out) ''height'') = Inl e))"
  proof -
    consider (title) "?n = ''title''" | (restart) "?n = ''restart''" | (show_) "?n = ''show''"
      | (hide) "?n = ''hide''" | (navigate) "?n = ''navigate''" | (size) "?n = ''size''"
      | (getScreenSize) "?n = ''getScreenSize''" | (menu) "?n = ''menu''"
      | (external) "?n = ''external''" | (exit) "?n = ''exit''" | (resolve) "?n = ''resolve''"
      | (send) "?n = ''send''" | (stdout) "?n = ''stdout''"
      | (other) "?n \<notin> set [''title'', ''restart'', ''show'', ''hide'', ''navigate'', ''size'',
           ''getScreenSize'', ''menu'', ''external'', ''exit'', ''resolve'', ''send'',
           ''stdout'']"
      by auto
    then show ?thesis
    proof cases
      case size
      then show ?thesis
        by (auto simp add: onStdOut_def Let_def call_def split: sum.splits)
    next
      case getScreenSize
      have "\<exists>st'. onStdOut E out st = Return st'"
        unfolding onStdOut_getScreenSize_branch [OF getScreenSize] Let_def
        by (rule onMessage_returns)
      then show ?thesis ..
    next
      case external
      have "\<exists>st'. onStdOut E out st = Return st'"
        unfolding onStdOut_external_branch [OF external] Let_def
        by (simp add: onMessage_returns)
      then show ?thesis ..
    next
      case exit
      have "\<exists>st'. onStdOut E out st = Return st'"
        unfolding onStdOut_exit_branch [OF exit] Let_def
        by (simp add: onMessage_returns)
      then show ?thesis ..
    qed (simp_all add: onStdOut_def Let_def call_def)
  qed
  show ?thesis
    unfolding Let_def
    using single size screen external exit local msg_returns out_returns
    by (intro conjI)
qed

theorem index_selects_window_witness:
  "(\<exists>ev. onStdOut (sample_env ''show'' 2 [(''seq'', ''5'')]) ''show index=2 seq=5'' gui_state =
            Return (gui_state\<lparr>trace := trace gui_state @ [ev]\<rparr>) \<and>
         event_window ev = Some w1) \<and>
   (\<exists>ev. onStdOut (sample_env ''title'' 0 [(''value'', ''Hi'')]) ''title index=0'' gui_state =
            Return (gui_state\<lparr>trace := trace gui_state @ [ev]\<rparr>) \<and>
         event_window ev = Some w0) \<and>
   onStdOut (sample_env ''size'' 99 [(''width'', ''640''), (''height'', ''480'')])
       ''size index=99'' gui_state =
     Return (gui_state\<lparr>trace := trace gui_state @ [SetSize w1 '''' 640 480 0]\<rparr>) \<and>
   (\<exists>ev. new_events gui_state
            (onMessage (sample_env ''hide'' (- 1) []) ''hide index=-1'' gui_state) = [ev] \<and>
         event_window ev = Some w1) \<and>
   (\<exists>ev. new_events gui_state
            (onMessage (sample_env ''inspect'' 0 []) ''inspect index=0'' gui_state) = [ev] \<and>
         event_window ev = Some w0)"
  using index_selects_window
          [of "sample_env ''show'' 2 [(''seq'', ''5'')]" "''show index=2 seq=5''" gui_state]
        index_selects_window
          [of "sample_env ''title'' 0 [(''value'', ''Hi'')]" "''title index=0''" gui_state]
        index_selects_window
          [of "sample_env ''size'' 99 [(''width'', ''640''), (''height'', ''480'')]"
              "''size index=99''" gui_state]
        index_selects_window
          [of "sample_env ''hide'' (- 1) []" "''hide index=-1''" gui_state]
        index_selects_window
          [of "sample_env ''inspect'' 0 []" "''inspect index=0''" gui_state]
  by (simp add: sample_env_def Let_def stoi_eval)

subsection \<open>The choice of mode\<close>

lemma c_arg_step: "c (arg_step E n a x) = c a + 1"
  by (simp add: arg_step_def Let_def)

lemma isCommandMode_arg_step:
  "isCommandMode (arg_step E n a x) \<longleftrightarrow>
     isCommandMode a \<or> (1 \<le> c a \<and> \<not> find_at_0 x ''-'') \<or>
     helpRequested x \<or> versionRequested x"
  using find_at_0_test_dash [of x] by (auto simp add: arg_step_def Let_def)

lemma isCommandMode_foldl:
  "1 \<le> c a \<Longrightarrow>
   isCommandMode (foldl (arg_step E n) a xs) \<longleftrightarrow>
     isCommandMode a \<or>
     (\<exists>x\<in>set xs. \<not> find_at_0 x ''-'' \<or> helpRequested x \<or> versionRequested x)"
proof (induction xs arbitrary: a)
  case Nil
  then show ?case by simp
next
  case (Cons x xs)
  have "1 \<le> c (arg_step E n a x)"
    using Cons.prems by (simp add: c_arg_step)
  from Cons.IH [OF this] Cons.prems show ?case
    by (auto simp add: isCommandMode_arg_step)
qed

lemma isCommandMode_arg_loop:
  "isCommandMode (arg_loop E argv) \<longleftrightarrow>
     (\<exists>x\<in>set (tl argv). \<not> find_at_0 x ''-'') \<or>
     (\<exists>x\<in>set argv. helpRequested x \<or> versionRequested x)"
proof (cases argv)
  case Nil
  then show ?thesis by (simp add: arg_loop_def initial_args_def)
next
  case (Cons x xs)
  have started: "1 \<le> c (arg_step E (int (length argv)) initial_args x)"
    by (simp add: c_arg_step initial_args_def)
  have first: "isCommandMode (arg_step E (int (length argv)) initial_args x) \<longleftrightarrow>
      helpRequested x \<or> versionRequested x"
    by (simp add: isCommandMode_arg_step initial_args_def)
  show ?thesis
    unfolding arg_loop_def
    using isCommandMode_foldl [OF started, where xs = xs] first Cons by auto
qed

text \<open>
  Claim C9: for every argument vector the run enters command mode exactly when some
  argument after the program name does not start with \<^verbatim>\<open>-\<close>, or some argument has one of
  \<^verbatim>\<open>--help\<close>, \<^verbatim>\<open>-help\<close>, \<^verbatim>\<open>-h\<close> (help) or \<^verbatim>\<open>--version\<close>, \<^verbatim>\<open>-version\<close>, \<^verbatim>\<open>-v\<close>, \<^verbatim>\<open>-V\<close>
  (version) as a prefix; otherwise it goes on to construct the windows of GUI mode.
  (\<open>find_at_0 x p\<close> says that \<open>p\<close> is a prefix of \<open>x\<close>: lemma \<open>find_at_0_iff\<close>.)
\<close>

theorem main_mode_command_iff:
  "main_mode E argv =
     (if (\<exists>x\<in>set (tl argv). \<not> find_at_0 x ''-'') \<or>
         (\<exists>x\<in>set argv.
            (find_at_0 x ''--help'' \<or> find_at_0 x ''-help'' \<or> find_at_0 x ''-h'') \<or>
            (find_at_0 x ''--version'' \<or> find_at_0 x ''-version'' \<or>
             find_at_0 x ''-v'' \<or> find_at_0 x ''-V''))
      then CommandMode else GuiMode)"
  by (simp only: main_mode_def isCommandMode_arg_loop helpRequested_def versionRequested_def)

theorem main_mode_command_iff_witness:
  "main_mode (sample_env [] 0 []) [''app'', ''build'', ''--target=ios''] = CommandMode \<and>
   main_mode (sample_env [] 0 []) [''app'', ''--test''] = GuiMode \<and>
   main_mode (sample_env [] 0 []) [''app''] = GuiMode \<and>
   main_mode (sample_env [] 0 []) [''app'', ''--test'', ''-Verbose''] = CommandMode \<and>
   main_mode (sample_env [] 0 []) [''app'', ''--helpful''] = CommandMode"
  using main_mode_command_iff [of "sample_env [] 0 []" "[''app'', ''build'', ''--target=ios'']"]
        main_mode_command_iff [of "sample_env [] 0 []" "[''app'', ''--test'']"]
        main_mode_command_iff [of "sample_env [] 0 []" "[''app'']"]
        main_mode_command_iff [of "sample_env [] 0 []" "[''app'', ''--test'', ''-Verbose'']"]
        main_mode_command_iff [of "sample_env [] 0 []" "[''app'', ''--helpful'']"]
  by (simp add: find_at_0_def)

end
